theory Spec2Isabelle
  imports Main
begin

section \<open>pdm-bump: dynamic version lookup and in-place rewrite (dynamic.py)\<close>

text \<open>
  The development embeds \<^verbatim>\<open>src/pdm_bump/dynamic.py\<close>: the class
  \<^verbatim>\<open>DynamicVersionConfig\<close> (the specification's PatternFileVersionStore) and the class
  \<^verbatim>\<open>DynamicVersionSource\<close> (the specification's DynamicVersionResolver).

  Conventions of the model.
  \<^item> A Python \<^verbatim>\<open>str\<close> is a \<open>string\<close>; a character is a code point below 256.
  \<^item> A path is the string that \<^verbatim>\<open>str(path)\<close> gives. The file system maps a path to
    the characters stored in the file, line ends as they are stored; a path the map does
    not know is a missing file. The platform codec turns these characters into the
    bytes of the file and back, so files with the same characters have the same bytes.
  \<^item> The code opens the file in text mode with the default newline handling: reading
    translates the line ends of the file, writing puts \<^verbatim>\<open>os.linesep\<close> for every line
    feed. \<^verbatim>\<open>os.linesep\<close> is given by the caller of the model.
  \<^item> An exception is a value of \<open>py_error\<close>; a function that can raise returns
    \<open>py_error + 'a\<close>, with \<open>Inl\<close> for the exception.
  \<^item> A method that changes its object or the file system returns the new object or the
    new file system next to its result.
\<close>

subsection \<open>Exceptions\<close>

datatype py_error =
    ValueError string
  | NameError string
  | AttributeError string
  | TypeError string
  | FileNotFoundError string

subsection \<open>The part of Python's \<^verbatim>\<open>re\<close> that the default pattern uses\<close>

text \<open>
  A pattern is a sequence of items. \<open>Bol\<close> and \<open>Eol\<close> are \<^verbatim>\<open>^\<close> and \<^verbatim>\<open>$\<close> under
  \<^verbatim>\<open>re.MULTILINE\<close>; \<open>Star\<close> is the greedy \<^verbatim>\<open>*\<close> and \<open>LazyPlus\<close> the non-greedy
  \<^verbatim>\<open>+?\<close> of a character class; \<open>Group\<close> is the named group \<^verbatim>\<open>(?P<version>...)\<close> and
  \<open>Opt\<close> the greedy optional non-capturing group \<^verbatim>\<open>(?:...)?\<close>. \<open>LazyStar\<close> and
  \<open>EndGroup\<close> only arise while matching: the rest of a \<^verbatim>\<open>+?\<close> after its first
  character, and the end of the group that was opened at the recorded offset.
\<close>

datatype cclass = Space | Dot | OneOf string

datatype re =
    Bol
  | Eol
  | Lit char
  | Cls cclass
  | Star cclass
  | LazyPlus cclass
  | LazyStar cclass
  | Group "re list"
  | EndGroup nat
  | Opt "re list"

abbreviation nl :: char where "nl \<equiv> CHR 0x0A"
abbreviation cr :: char where "cr \<equiv> CHR 0x0D"
abbreviation dq :: char where "dq \<equiv> CHR 0x22"
abbreviation sq :: char where "sq \<equiv> CHR 0x27"

text \<open>
  \<^verbatim>\<open>\s\<close> of a \<^verbatim>\<open>str\<close> pattern is Unicode white space; below 256 that is
  TAB, LF, VT, FF, CR, the separators 0x1C to 0x1F, the blank, NEL (0x85) and the
  no-break space (0xA0). The dot matches everything but the line feed.
\<close>

definition is_space :: "char \<Rightarrow> bool" where
  "is_space c \<longleftrightarrow> c \<in> set [CHR 0x09, CHR 0x0A, CHR 0x0B, CHR 0x0C, CHR 0x0D,
     CHR 0x1C, CHR 0x1D, CHR 0x1E, CHR 0x1F, CHR 0x20, CHR 0x85, CHR 0xA0]"

fun in_class :: "cclass \<Rightarrow> char \<Rightarrow> bool" where
  "in_class Space c = is_space c"
| "in_class Dot c = (c \<noteq> nl)"
| "in_class (OneOf cs) c = (c \<in> set cs)"

text \<open>
  \<open>match_here rs prev xs i cap\<close> matches the items \<open>rs\<close> at offset \<open>i\<close>, where \<open>xs\<close>
  is the text from \<open>i\<close> on and \<open>prev\<close> the character before it. It is the backtracking
  matcher of \<^verbatim>\<open>re\<close>: alternatives are tried in priority order (a greedy item takes a
  character first, a lazy one gives up first) and the first complete match wins. The
  result is the end offset and the span of the group \<^verbatim>\<open>version\<close>, if it took part.
\<close>

function match_here ::
  "re list \<Rightarrow> char option \<Rightarrow> string \<Rightarrow> nat \<Rightarrow> (nat \<times> nat) option \<Rightarrow> (nat \<times> (nat \<times> nat) option) option"
where
  "match_here [] prev xs i cap = Some (i, cap)"
| "match_here (Bol # rs) prev xs i cap =
     (if prev = None \<or> prev = Some nl then match_here rs prev xs i cap else None)"
| "match_here (Eol # rs) prev xs i cap =
     (if xs = [] \<or> hd xs = nl then match_here rs prev xs i cap else None)"
| "match_here (Lit c # rs) prev xs i cap =
     (case xs of [] \<Rightarrow> None
      | x # xs' \<Rightarrow> if x = c then match_here rs (Some x) xs' (Suc i) cap else None)"
| "match_here (Cls k # rs) prev xs i cap =
     (case xs of [] \<Rightarrow> None
      | x # xs' \<Rightarrow> if in_class k x then match_here rs (Some x) xs' (Suc i) cap else None)"
| "match_here (Star k # rs) prev xs i cap =
     (case xs of [] \<Rightarrow> match_here rs prev xs i cap
      | x # xs' \<Rightarrow>
          if in_class k x then
            (case match_here (Star k # rs) (Some x) xs' (Suc i) cap of
               Some r \<Rightarrow> Some r
             | None \<Rightarrow> match_here rs prev xs i cap)
          else match_here rs prev xs i cap)"
| "match_here (LazyPlus k # rs) prev xs i cap =
     (case xs of [] \<Rightarrow> None
      | x # xs' \<Rightarrow>
          if in_class k x then match_here (LazyStar k # rs) (Some x) xs' (Suc i) cap
          else None)"
| "match_here (LazyStar k # rs) prev xs i cap =
     (case match_here rs prev xs i cap of
        Some r \<Rightarrow> Some r
      | None \<Rightarrow>
         (case xs of [] \<Rightarrow> None
          | x # xs' \<Rightarrow>
              if in_class k x then match_here (LazyStar k # rs) (Some x) xs' (Suc i) cap
              else None))"
| "match_here (Group g # rs) prev xs i cap = match_here (g @ EndGroup i # rs) prev xs i cap"
| "match_here (EndGroup a # rs) prev xs i cap = match_here rs prev xs i (Some (a, i))"
| "match_here (Opt g # rs) prev xs i cap =
     (case match_here (g @ rs) prev xs i cap of
        Some r \<Rightarrow> Some r
      | None \<Rightarrow> match_here rs prev xs i cap)"
  by pat_completeness auto
termination
  by (relation "measures [\<lambda>(rs, prev, xs, i, cap). size_list size rs,
                          \<lambda>(rs, prev, xs, i, cap). length xs]") auto

text \<open>
  A match object, as far as the code looks at it: where the whole match starts and ends,
  and the span of the group \<^verbatim>\<open>version\<close> (\<open>None\<close> when the group took no part in the
  match, for which \<^verbatim>\<open>span\<close> gives \<^verbatim>\<open>(-1, -1)\<close> and \<^verbatim>\<open>group\<close> gives \<^verbatim>\<open>None\<close>).
\<close>

record rmatch =
  m_start :: nat
  m_end :: nat
  m_version :: "(nat \<times> nat) option"

text \<open>
  \<^verbatim>\<open>Pattern.search\<close>: the start offsets are tried from left to right, the offset at the
  end of the text included.
\<close>

fun search_from :: "re list \<Rightarrow> char option \<Rightarrow> string \<Rightarrow> nat \<Rightarrow> rmatch option" where
  "search_from rs prev xs i =
     (case match_here rs prev xs i None of
        Some (e, cap) \<Rightarrow> Some \<lparr>m_start = i, m_end = e, m_version = cap\<rparr>
      | None \<Rightarrow>
         (case xs of [] \<Rightarrow> None
          | x # xs' \<Rightarrow> search_from rs (Some x) xs' (Suc i)))"

text \<open>
  A compiled pattern is its \<^verbatim>\<open>search\<close> method. The class takes any compiled pattern
  that defines a group named \<^verbatim>\<open>version\<close>.
\<close>

type_synonym pattern = "string \<Rightarrow> rmatch option"

definition re_search :: "re list \<Rightarrow> pattern" where
  "re_search rs s = search_from rs None s 0"

text \<open>
  Lines 20 to 23:
  \<^verbatim>\<open>^__version__\s*=\s*["'](?P<version>.+?)["']\s*(?:#.*)?$\<close> with \<^verbatim>\<open>re.M\<close>.
\<close>

definition default_regex_items :: "re list" where
  "default_regex_items =
     [Bol] @ map Lit ''__version__'' @
     [Star Space, Lit (CHR ''=''), Star Space, Cls (OneOf [dq, sq]),
      Group [LazyPlus Dot],
      Cls (OneOf [dq, sq]), Star Space, Opt [Lit (CHR ''#''), Star Dot], Eol]"

definition DEFAULT_REGEX :: pattern where
  "DEFAULT_REGEX = re_search default_regex_items"

subsection \<open>Slices and match objects\<close>

text \<open>
  \<^verbatim>\<open>s[:k]\<close> and \<^verbatim>\<open>s[k:]\<close> for an integer \<open>k\<close>: a negative bound counts from the end,
  and a bound outside the text is clipped.
\<close>

definition py_slice_to :: "string \<Rightarrow> int \<Rightarrow> string" where
  "py_slice_to s k = (if k < 0 then take (nat (int (length s) + k)) s else take (nat k) s)"

definition py_slice_from :: "string \<Rightarrow> int \<Rightarrow> string" where
  "py_slice_from s k = (if k < 0 then drop (nat (int (length s) + k)) s else drop (nat k) s)"

text \<open>\<^verbatim>\<open>match.span("version")\<close> and \<^verbatim>\<open>match.group("version")\<close> of a match in \<open>s\<close>.\<close>

definition span_version :: "rmatch \<Rightarrow> int \<times> int" where
  "span_version m = (case m_version m of None \<Rightarrow> (- 1, - 1) | Some (a, b) \<Rightarrow> (int a, int b))"

definition group_version :: "rmatch \<Rightarrow> string \<Rightarrow> string option" where
  "group_version m s =
     (case m_version m of None \<Rightarrow> None | Some (a, b) \<Rightarrow> Some (take (b - a) (drop a s)))"

subsection \<open>The file system\<close>

type_synonym filesystem = "string \<rightharpoonup> string"

text \<open>
  \<^verbatim>\<open>open("r").read()\<close>: with universal newlines a carriage return followed by a line
  feed, and a carriage return alone, are read as one line feed.
\<close>

fun read_text :: "string \<Rightarrow> string" where
  "read_text [] = []"
| "read_text [c] = [if c = cr then nl else c]"
| "read_text (c # d # ds) =
     (if c = cr \<and> d = nl then nl # read_text ds
      else (if c = cr then nl else c) # read_text (d # ds))"

text \<open>
  \<^verbatim>\<open>open("w").write(s)\<close>: the file is replaced, and every line feed of \<open>s\<close> is stored
  as \<open>linesep\<close>, the value of \<^verbatim>\<open>os.linesep\<close> (a line feed on POSIX, carriage return
  and line feed on Windows).
\<close>

definition write_text :: "string \<Rightarrow> string \<Rightarrow> string" where
  "write_text linesep s = concat (map (\<lambda>c. if c = nl then linesep else [c]) s)"

subsection \<open>DynamicVersionConfig (lines 26 to 85)\<close>

text \<open>
  The object has the two attributes that \<^verbatim>\<open>__init__\<close> sets, and the entry that
  \<^verbatim>\<open>functools.cached_property\<close> puts into the instance dictionary under the name
  \<^verbatim>\<open>dynamic_version\<close> at the first access: \<open>None\<close> while there is no entry,
  \<open>Some v\<close> once the value \<open>v\<close> (itself an \<^verbatim>\<open>Optional[str]\<close>) is stored.
\<close>

record DynamicVersionConfig =
  "file" :: string
  pattern :: pattern
  dynamic_version_cache :: "string option option"

definition new_DynamicVersionConfig :: "string \<Rightarrow> pattern \<Rightarrow> DynamicVersionConfig" where
  "new_DynamicVersionConfig file_path pat =
     \<lparr>file = file_path, pattern = pat, dynamic_version_cache = None\<rparr>"

text \<open>The function under the decorator, lines 43 to 48.\<close>

definition dynamic_version_fget :: "filesystem \<Rightarrow> DynamicVersionConfig \<Rightarrow> py_error + string option" where
  "dynamic_version_fget fs self =
     (case fs (file self) of
        None \<Rightarrow> Inl (FileNotFoundError (file self))
      | Some stored \<Rightarrow>
         (let text = read_text stored in
          case pattern self text of
            Some m \<Rightarrow> Inr (group_version m text)
          | None \<Rightarrow> Inr None))"

text \<open>
  The attribute access \<^verbatim>\<open>self.dynamic_version\<close> (line 42, \<^verbatim>\<open>@cached_property\<close>):
  a stored value is returned as it is; otherwise the function runs and, when it returns,
  its value is stored in the object.
\<close>

definition dynamic_version ::
  "filesystem \<Rightarrow> DynamicVersionConfig \<Rightarrow> (py_error + string option) \<times> DynamicVersionConfig" where
  "dynamic_version fs self =
     (case dynamic_version_cache self of
        Some v \<Rightarrow> (Inr v, self)
      | None \<Rightarrow>
         (case dynamic_version_fget fs self of
            Inl e \<Rightarrow> (Inl e, self)
          | Inr v \<Rightarrow> (Inr v, self\<lparr>dynamic_version_cache := Some v\<rparr>)))"

text \<open>
  Lines 50 to 64. The result is the outcome and the file system afterwards. The text
  searched and spliced is the file as read in text mode; what is stored is the new
  text as written in text mode.
\<close>

definition replace_dynamic_version ::
  "string \<Rightarrow> filesystem \<Rightarrow> DynamicVersionConfig \<Rightarrow> string \<Rightarrow> (py_error + unit) \<times> filesystem" where
  "replace_dynamic_version linesep fs self new_version =
     (case fs (file self) of
        None \<Rightarrow> (Inl (FileNotFoundError (file self)), fs)
      | Some stored \<Rightarrow>
         (let version_file = read_text stored in
          case pattern self version_file of
            None \<Rightarrow> (Inl (ValueError ''Failed to fetch version''), fs)
          | Some m \<Rightarrow>
             (let (version_start, version_end) = span_version m;
                  new_version_file =
                    py_slice_to version_file version_start
                    @ new_version
                    @ py_slice_from version_file version_end
              in (Inr (), fs(file self \<mapsto> write_text linesep new_version_file)))))"

subsection \<open>The project manifest\<close>

text \<open>
  The values of a TOML document, as Python sees them (floats and dates behave like
  integers in everything below: they equal no string and are not containers).
\<close>

datatype toml_value =
    TString string
  | TInteger int
  | TBoolean bool
  | TArray "toml_value list"
  | TTable "(string \<times> toml_value) list"

text \<open>
  \<^verbatim>\<open>Config.get_pyproject_value(*keys)\<close> is not part of the sources at hand. The manifest
  is taken as that accessor: the value at a key path, or \<open>None\<close>.
\<close>

type_synonym Config = "string list \<Rightarrow> toml_value option"

fun is_prefix :: "string \<Rightarrow> string \<Rightarrow> bool" where
  "is_prefix [] ys = True"
| "is_prefix (x # xs) [] = False"
| "is_prefix (x # xs) (y # ys) = (x = y \<and> is_prefix xs ys)"

fun is_substring :: "string \<Rightarrow> string \<Rightarrow> bool" where
  "is_substring xs [] = (xs = [])"
| "is_substring xs (y # ys) = (is_prefix xs (y # ys) \<or> is_substring xs ys)"

text \<open>
  \<^verbatim>\<open>s in v\<close> for a string \<open>s\<close>: an element equal to \<open>s\<close> in a list, a substring in a
  string, a key in a table; any other value is not a container.
\<close>

fun py_in :: "string \<Rightarrow> toml_value \<Rightarrow> py_error + bool" where
  "py_in s (TArray vs) = Inr (TString s \<in> set vs)"
| "py_in s (TString t) = Inr (is_substring s t)"
| "py_in s (TTable kvs) = Inr (s \<in> fst ` set kvs)"
| "py_in s (TInteger n) = Inl (TypeError ''argument of type int is not iterable'')"
| "py_in s (TBoolean b) = Inl (TypeError ''argument of type bool is not iterable'')"

text \<open>
  Lines 66 to 85. \<open>truediv\<close> is \<^verbatim>\<open>Path.__truediv__\<close> with a string on the right, given
  by the caller of the model; the operator raises \<^verbatim>\<open>TypeError\<close> for anything that is
  not a string or a path, \<^verbatim>\<open>None\<close> included. A value equals a string literal only if
  it is that string.
\<close>

definition find_dynamic_config ::
  "(string \<Rightarrow> string \<Rightarrow> string) \<Rightarrow> string \<Rightarrow> Config \<Rightarrow> py_error + DynamicVersionConfig option" where
  "find_dynamic_config truediv root_path project_config =
     (if project_config [''build-system'', ''build-backend''] = Some (TString ''pdm.pep517.api'')
         \<and> project_config [''tool'', ''pdm'', ''version'', ''source''] = Some (TString ''file'')
      then
        (case project_config [''tool'', ''pdm'', ''version'', ''path''] of
           Some (TString file_path) \<Rightarrow>
             Inr (Some (new_DynamicVersionConfig (truediv root_path file_path) DEFAULT_REGEX))
         | _ \<Rightarrow> Inl (TypeError ''unsupported operand type(s) for /''))
      else Inr None)"

subsection \<open>Names inside a class body\<close>

text \<open>
  An identifier in a class body that starts with two underscores and does not end with
  two is compiled under its mangled name, the class name put in front. That holds for a
  bare name in a method as much as for an attribute: inside
  \<^verbatim>\<open>class DynamicVersionSource\<close> the call \<^verbatim>\<open>__find_dynamic_config(...)\<close> loads the
  global \<^verbatim>\<open>_DynamicVersionSource__find_dynamic_config\<close>.
\<close>

definition is_private :: "string \<Rightarrow> bool" where
  "is_private name \<longleftrightarrow> take 2 name = ''__'' \<and> drop (length name - 2) name \<noteq> ''__''"

definition mangle :: "string \<Rightarrow> string \<Rightarrow> string" where
  "mangle cls name =
     (if is_private name then ''_'' @ dropWhile (\<lambda>c. c = CHR ''_'') cls @ name else name)"

text \<open>
  The names that \<^verbatim>\<open>dynamic.py\<close> binds at module level: its imports (lines 10 to 18),
  \<^verbatim>\<open>DEFAULT_REGEX\<close> and the two classes. The methods of the classes are attributes
  of the classes, not module names.
\<close>

definition module_globals :: "string list" where
  "module_globals =
     [''cached_property'', ''Path'', ''MultilinePattern'', ''Match'', ''Pattern'',
      ''compile_re'', ''Final'', ''Optional'', ''cast'', ''Config'',
      ''Pep440VersionFormatter'', ''Version'',
      ''DEFAULT_REGEX'', ''DynamicVersionConfig'', ''DynamicVersionSource'']"

text \<open>
  A call through a bare name that neither the module nor the builtins bind: loading the
  name raises \<^verbatim>\<open>NameError\<close> before any argument is evaluated. The three bare calls
  of \<^verbatim>\<open>DynamicVersionSource\<close> (lines 106, 126 and 131) are of this kind.
\<close>

definition call_unbound :: "string \<Rightarrow> py_error + 'a" where
  "call_unbound name = Inl (NameError (''name '' @ [sq] @ name @ [sq] @ '' is not defined''))"

subsection \<open>DynamicVersionSource (lines 88 to 140)\<close>

text \<open>
  \<^verbatim>\<open>Version\<close> is not part of the sources at hand: the type of versions is a type
  variable, and \<^verbatim>\<open>Version.from_string\<close> and \<^verbatim>\<open>Pep440VersionFormatter().format\<close> are
  given by the caller of the model. \<open>current_version = None\<close> is the state Unresolved.
\<close>

record 'v DynamicVersionSource =
  project_root :: string
  config :: Config
  current_version :: "'v option"

definition new_DynamicVersionSource :: "string \<Rightarrow> Config \<Rightarrow> 'v DynamicVersionSource" where
  "new_DynamicVersionSource root cfg =
     \<lparr>project_root = root, config = cfg, current_version = None\<rparr>"

text \<open>Lines 94 to 99. \<^verbatim>\<open>cast\<close> does nothing at run time.\<close>

definition is_enabled :: "'v DynamicVersionSource \<Rightarrow> py_error + bool" where
  "is_enabled self =
     (case config self [''project'', ''dynamic''] of
        None \<Rightarrow> Inr False
      | Some dynamic_items \<Rightarrow> py_in ''version'' dynamic_items)"

text \<open>Lines 128 to 140, the method \<^verbatim>\<open>__get_dynamic_version\<close>.\<close>

definition get_dynamic_version :: "'v DynamicVersionSource \<Rightarrow> py_error + DynamicVersionConfig" where
  "get_dynamic_version self =
     (case call_unbound (mangle ''DynamicVersionSource'' ''__find_dynamic_config'') of
        Inl e \<Rightarrow> Inl e
      | Inr dynamic_version' \<Rightarrow>
         (case dynamic_version' of
            Some dynamic \<Rightarrow> Inr dynamic
          | None \<Rightarrow>
              Inl (ValueError (''Failed to extract dynamic version from '' @ project_root self
                     @ ''. Only pdm-pep517 `file` types are supported.''))))"

text \<open>
  Lines 101 to 113, the getter of the property \<^verbatim>\<open>current_version\<close>. The message of
  line 110 reads the attribute \<^verbatim>\<open>regex\<close>, which \<^verbatim>\<open>DynamicVersionConfig\<close> does not have.
\<close>

definition get_current_version ::
  "(string \<Rightarrow> py_error + 'v) \<Rightarrow> filesystem \<Rightarrow> 'v DynamicVersionSource
     \<Rightarrow> (py_error + 'v) \<times> 'v DynamicVersionSource" where
  "get_current_version from_string fs self =
     (case current_version self of
        Some v \<Rightarrow> (Inr v, self)
      | None \<Rightarrow>
         (case get_dynamic_version self of
            Inl e \<Rightarrow> (Inl e, self)
          | Inr dynamic \<Rightarrow>
             (case call_unbound (mangle ''DynamicVersionSource'' ''__get_dynamic_version'') of
                Inl e \<Rightarrow> (Inl e, self)
              | Inr version \<Rightarrow>
                 (case version of
                    Some ver \<Rightarrow>
                      (case from_string ver of
                         Inl e \<Rightarrow> (Inl e, self)
                       | Inr v \<Rightarrow> (Inr v, self\<lparr>current_version := Some v\<rparr>))
                  | None \<Rightarrow>
                      (Inl (AttributeError
                         ''DynamicVersionConfig object has no attribute regex''), self)))))"

text \<open>Lines 115 and 116, the setter of the property.\<close>

definition set_current_version :: "'v DynamicVersionSource \<Rightarrow> 'v \<Rightarrow> 'v DynamicVersionSource" where
  "set_current_version self version = self\<lparr>current_version := Some version\<rparr>"

text \<open>Lines 120 to 126. The result is the outcome and the file system afterwards.\<close>

definition save_value ::
  "('v \<Rightarrow> string) \<Rightarrow> filesystem \<Rightarrow> 'v DynamicVersionSource \<Rightarrow> (py_error + unit) \<times> filesystem" where
  "save_value format fs self =
     (case current_version self of
        None \<Rightarrow> (Inl (ValueError ''No current value set''), fs)
      | Some version \<Rightarrow>
         (let ver = format version in
          case get_dynamic_version self of
            Inl e \<Rightarrow> (Inl e, fs)
          | Inr cfg \<Rightarrow>
             (case call_unbound (mangle ''DynamicVersionSource'' ''__replace_dynamic_version'') of
                Inl e \<Rightarrow> (Inl e, fs)
              | Inr (u, fs') \<Rightarrow> (Inr u, fs'))))"

subsection \<open>Notions used in the proofs about spans\<close>

text \<open>
  The offsets at which the groups still open were opened, an invariant of the recorded
  span, and the same for a result of \<open>match_here\<close> started at offset \<open>i\<close> with \<open>n\<close>
  characters to go.
\<close>

fun ends :: "re \<Rightarrow> nat list" where
  "ends (EndGroup a) = [a]"
| "ends (Group g) = concat (map ends g)"
| "ends (Opt g) = concat (map ends g)"
| "ends r = []"

definition ends_ok :: "re list \<Rightarrow> nat \<Rightarrow> bool" where
  "ends_ok rs i \<longleftrightarrow> (\<forall>r \<in> set rs. \<forall>a \<in> set (ends r). a \<le> i)"

definition cap_ok :: "(nat \<times> nat) option \<Rightarrow> nat \<Rightarrow> bool" where
  "cap_ok cap i \<longleftrightarrow> (case cap of None \<Rightarrow> True | Some (a, b) \<Rightarrow> a \<le> b \<and> b \<le> i)"

definition res_ok :: "nat \<Rightarrow> nat \<Rightarrow> (nat \<times> (nat \<times> nat) option) option \<Rightarrow> bool" where
  "res_ok i n r \<longleftrightarrow>
     (case r of None \<Rightarrow> True | Some (e, cap') \<Rightarrow> i \<le> e \<and> e \<le> i + n \<and> cap_ok cap' e)"

section \<open>Properties\<close>

subsection \<open>Spans of the default pattern lie inside the text\<close>

lemma ends_ok_Suc: "ends_ok rs i \<Longrightarrow> ends_ok rs (Suc i)"
  by (fastforce simp: ends_ok_def)

lemma ends_ok_Cons: "ends_ok (r # rs) i \<Longrightarrow> ends_ok rs i"
  by (simp add: ends_ok_def)

lemma ends_ok_Group: "ends_ok (Group g # rs) i \<Longrightarrow> ends_ok (g @ EndGroup i # rs) i"
  by (auto simp: ends_ok_def)

lemma ends_ok_Opt: "ends_ok (Opt g # rs) i \<Longrightarrow> ends_ok (g @ rs) i"
  by (auto simp: ends_ok_def)

lemma ends_ok_EndGroup: "ends_ok (EndGroup a # rs) i \<Longrightarrow> a \<le> i"
  by (simp add: ends_ok_def)

lemma ends_ok_Lazy: "ends_ok (LazyPlus k # rs) i \<Longrightarrow> ends_ok (LazyStar k # rs) (Suc i)"
  by (fastforce simp: ends_ok_def)

lemma cap_ok_Suc: "cap_ok cap i \<Longrightarrow> cap_ok cap (Suc i)"
  by (auto simp: cap_ok_def split: option.splits)

lemma res_ok_None: "res_ok i n None"
  by (simp add: res_ok_def)

lemma res_ok_Suc: "res_ok (Suc i) n r \<Longrightarrow> res_ok i (Suc n) r"
  by (auto simp: res_ok_def split: option.splits)

lemma res_ok_orelse:
  "res_ok i n r1 \<Longrightarrow> res_ok i n r2 \<Longrightarrow> res_ok i n (case r1 of Some r \<Rightarrow> Some r | None \<Rightarrow> r2)"
  by (cases r1) simp_all

lemma match_here_res_ok:
  "ends_ok rs i \<Longrightarrow> cap_ok cap i \<Longrightarrow> res_ok i (length xs) (match_here rs prev xs i cap)"
proof (induction rs prev xs i cap rule: match_here.induct)
  case (1 prev xs i cap)
  then show ?case by (simp add: res_ok_def)
next
  case (2 rs prev xs i cap)
  then show ?case by (auto simp: res_ok_None dest: ends_ok_Cons)
next
  case (3 rs prev xs i cap)
  then show ?case by (auto simp: res_ok_None dest: ends_ok_Cons)
next
  case (4 c rs prev xs i cap)
  then show ?case
    by (cases xs) (auto simp: res_ok_None intro!: res_ok_Suc dest: ends_ok_Cons ends_ok_Suc cap_ok_Suc)
next
  case (5 k rs prev xs i cap)
  then show ?case 
    by (cases xs) (auto simp: res_ok_None intro!: res_ok_Suc dest: ends_ok_Cons ends_ok_Suc cap_ok_Suc)
next
  case (6 k rs prev xs i cap)
  have e: "ends_ok rs i" using 6 by (auto dest: ends_ok_Cons)
  show ?case
  proof (cases xs)
    case Nil
    then show ?thesis using "6.IH"(1) e "6.prems"(2) by simp
  next
    case (Cons x xs')
    show ?thesis
    proof (cases "in_class k x")
      case True
      have "res_ok (Suc i) (length xs') (match_here (Star k # rs) (Some x) xs' (Suc i) cap)"
        using "6.IH"(2)[OF Cons True] "6.prems" by (simp add: ends_ok_Suc cap_ok_Suc)
      then have first: "res_ok i (length xs) (match_here (Star k # rs) (Some x) xs' (Suc i) cap)"
        using Cons by (simp add: res_ok_Suc)
      show ?thesis
      proof (cases "match_here (Star k # rs) (Some x) xs' (Suc i) cap")
        case None
        then show ?thesis using "6.IH"(3)[OF Cons True None e "6.prems"(2)] Cons True by simp
      next
        case (Some r)
        then show ?thesis using first Cons True by simp
      qed
    next
      case False
      then show ?thesis using "6.IH"(4)[OF Cons False e "6.prems"(2)] Cons by simp
    qed
  qed
next
  case (7 k rs prev xs i cap)
  show ?case
  proof (cases xs)
    case Nil
    then show ?thesis by (simp add: res_ok_None)
  next
    case (Cons x xs')
    show ?thesis
    proof (cases "in_class k x")
      case True
      have "res_ok (Suc i) (length xs') (match_here (LazyStar k # rs) (Some x) xs' (Suc i) cap)"
        using "7.IH"[OF Cons True] "7.prems" by (simp add: ends_ok_Lazy cap_ok_Suc)
      then show ?thesis using Cons True by (simp add: res_ok_Suc del: match_here.simps(8))
    next
      case False
      then show ?thesis using Cons by (simp add: res_ok_None)
    qed
  qed
next
  case (8 k rs prev xs i cap)
  have e: "ends_ok rs i" using 8 by (auto dest: ends_ok_Cons)
  have rest: "res_ok i (length xs) (match_here rs prev xs i cap)"
    using "8.IH"(1)[OF e "8.prems"(2)] .
  show ?case
  proof (cases "match_here rs prev xs i cap")
    case (Some r)
    then show ?thesis using rest by simp
  next
    case None
    show ?thesis
    proof (cases xs)
      case Nil
      then show ?thesis using None by (simp add: res_ok_None)
    next
      case (Cons x xs')
      show ?thesis
      proof (cases "in_class k x")
        case True
        have "res_ok (Suc i) (length xs') (match_here (LazyStar k # rs) (Some x) xs' (Suc i) cap)"
          using "8.IH"(2)[OF None Cons True] "8.prems" by (simp add: ends_ok_Suc cap_ok_Suc)
        then show ?thesis using None Cons True by (simp add: res_ok_Suc)
      next
        case False
        then show ?thesis using None Cons by (simp add: res_ok_None)
      qed
    qed
  qed
next
  case (9 g rs prev xs i cap)
  then show ?case by (auto dest: ends_ok_Group)
next
  case (10 a rs prev xs i cap)
  have "cap_ok (Some (a, i)) i" using 10 by (auto simp: cap_ok_def dest: ends_ok_EndGroup)
  then show ?case using 10 by (auto dest: ends_ok_Cons)
next
  case (11 g rs prev xs i cap)
  have a: "res_ok i (length xs) (match_here (g @ rs) prev xs i cap)"
    using "11.IH"(1) "11.prems" by (simp add: ends_ok_Opt)
  show ?case
  proof (cases "match_here (g @ rs) prev xs i cap")
    case None
    have "ends_ok rs i" using "11.prems"(1) by (rule ends_ok_Cons)
    then show ?thesis using "11.IH"(2)[OF None] "11.prems"(2) None by simp
  next
    case (Some r)
    then show ?thesis using a by simp
  qed
qed

lemma search_from_span:
  "(\<And>j. ends_ok rs j) \<Longrightarrow> search_from rs prev xs i = Some m \<Longrightarrow>
   cap_ok (m_version m) (i + length xs)"
proof (induction xs arbitrary: prev i)
  case Nil
  have "res_ok i 0 (match_here rs prev [] i None)"
    using match_here_res_ok[of rs i None "[]" prev] Nil(1) by (simp add: cap_ok_def)
  then show ?case using Nil(2) by (auto simp: res_ok_def split: option.splits)
next
  case (Cons x xs)
  have r: "res_ok i (Suc (length xs)) (match_here rs prev (x # xs) i None)"
    using match_here_res_ok[of rs i None "x # xs" prev] Cons(2) by (simp add: cap_ok_def)
  show ?case
  proof (cases "match_here rs prev (x # xs) i None")
    case None
    then have "search_from rs (Some x) xs (Suc i) = Some m" using Cons(3) by simp
    then show ?thesis using Cons(1)[OF Cons(2)] by fastforce
  next
    case (Some p)
    then show ?thesis using r Cons(3) 
      by (cases p) (auto simp: res_ok_def cap_ok_def split: option.splits)
  qed
qed

lemma default_regex_items_ends_ok: "ends_ok default_regex_items j"
  by (simp add: default_regex_items_def ends_ok_def)

lemma DEFAULT_REGEX_span:
  "DEFAULT_REGEX s = Some m \<Longrightarrow> m_version m = Some (a, b) \<Longrightarrow> a \<le> b \<and> b \<le> length s"
  using search_from_span[of default_regex_items None s 0 m]
  by (simp add: DEFAULT_REGEX_def re_search_def default_regex_items_ends_ok cap_ok_def)

subsection \<open>The bare private names\<close>

lemma private_calls_unbound:
  "mangle ''DynamicVersionSource'' ''__find_dynamic_config'' \<notin> set module_globals"
  "mangle ''DynamicVersionSource'' ''__get_dynamic_version'' \<notin> set module_globals"
  "mangle ''DynamicVersionSource'' ''__replace_dynamic_version'' \<notin> set module_globals"
  by (simp_all add: mangle_def is_private_def module_globals_def)

lemma get_dynamic_version_raises:
  "get_dynamic_version self =
     Inl (NameError (''name '' @ [sq] @ ''_DynamicVersionSource__find_dynamic_config''
            @ [sq] @ '' is not defined''))"
  by (simp add: get_dynamic_version_def call_unbound_def mangle_def is_private_def)

subsection \<open>The store\<close>

lemma read_text_no_cr: "cr \<notin> set s \<Longrightarrow> read_text s = s"
  by (induction s rule: read_text.induct) auto

lemma write_text_nl: "write_text [nl] s = s"
  by (induction s) (simp_all add: write_text_def)

lemma rewrite_posix: "cr \<notin> set stored \<Longrightarrow> write_text [nl] (read_text stored) = stored"
  by (simp add: read_text_no_cr write_text_nl)

text \<open>
  C4. When the file exists and its text, as read, has no match of the store's pattern,
  \<^verbatim>\<open>replace_dynamic_version\<close> raises the \<^verbatim>\<open>ValueError\<close> of line 55 (the failure the
  specification calls VersionNotFoundError) for every new version, and the file system
  afterwards is the file system before: nothing is written.
\<close>

theorem replace_no_match_fails_unchanged:
  "fs (file self) = Some content \<Longrightarrow> pattern self (read_text content) = None \<Longrightarrow>
   replace_dynamic_version linesep fs self v
     = (Inl (ValueError ''Failed to fetch version''), fs)"
  by (simp add: replace_dynamic_version_def)

theorem replace_no_match_fails_unchanged_witness:
  "replace_dynamic_version [nl] [''v.py'' \<mapsto> ''version = 1'']
     (new_DynamicVersionConfig ''v.py'' DEFAULT_REGEX) ''2.0''
   = (Inl (ValueError ''Failed to fetch version''), [''v.py'' \<mapsto> ''version = 1''])"
proof -
  have h1: "[''v.py'' \<mapsto> ''version = 1''] (file (new_DynamicVersionConfig ''v.py'' DEFAULT_REGEX))
              = Some ''version = 1''"
    by (simp add: new_DynamicVersionConfig_def)
  have h2: "pattern (new_DynamicVersionConfig ''v.py'' DEFAULT_REGEX)
              (read_text ''version = 1'') = None"
    by (simp add: new_DynamicVersionConfig_def DEFAULT_REGEX_def re_search_def
          default_regex_items_def)
  show ?thesis
    by (rule replace_no_match_fails_unchanged
          [where fs = "[''v.py'' \<mapsto> ''version = 1'']"
             and self = "new_DynamicVersionConfig ''v.py'' DEFAULT_REGEX", OF h1 h2])
qed

text \<open>
  C10. The default pattern takes either quote on either side: on a file whose text is
  the line \<^verbatim>\<open>__version__ = "1.2.3'\<close> a new store reads \<^verbatim>\<open>1.2.3\<close>, and so it does
  when the line stands between a comment line and another assignment.
\<close>

theorem default_regex_mismatched_quotes:
  "dynamic_version [''pkg/__init__.py'' \<mapsto> ''__version__ = '' @ [dq] @ ''1.2.3'' @ [sq]]
     (new_DynamicVersionConfig ''pkg/__init__.py'' DEFAULT_REGEX)
   = (Inr (Some ''1.2.3''),
      (new_DynamicVersionConfig ''pkg/__init__.py'' DEFAULT_REGEX)
        \<lparr>dynamic_version_cache := Some (Some ''1.2.3'')\<rparr>)
   \<and> fst (dynamic_version
        [''pkg/__init__.py'' \<mapsto> ''# pkg'' @ [nl] @ ''__version__ = '' @ [dq] @ ''1.2.3'' @ [sq]
           @ [nl] @ ''name = '' @ [sq] @ ''x'' @ [sq] @ [nl]]
        (new_DynamicVersionConfig ''pkg/__init__.py'' DEFAULT_REGEX))
     = Inr (Some ''1.2.3'')"
  by (simp add: dynamic_version_def dynamic_version_fget_def new_DynamicVersionConfig_def
       group_version_def DEFAULT_REGEX_def re_search_def default_regex_items_def is_space_def)

lemma dynamic_version_fresh:
  "dynamic_version_cache self = None \<Longrightarrow>
   fst (dynamic_version fs self) = dynamic_version_fget fs self"
  by (simp add: dynamic_version_def split: sum.splits)

lemma splice_same:
  "a \<le> b \<Longrightarrow> b \<le> length s \<Longrightarrow>
   py_slice_to s (int a) @ take (b - a) (drop a s) @ py_slice_from s (int b) = s"
proof -
  assume ab: "a \<le> b" and "b \<le> length s"
  have "drop b s = drop (b - a) (drop a s)" using ab by simp
  then have "take (b - a) (drop a s) @ drop b s = drop a s" by (metis append_take_drop_id)
  then show ?thesis by (simp add: py_slice_to_def py_slice_from_def)
qed

lemma replace_dynamic_version_splice:
  "fs (file self) = Some stored \<Longrightarrow> pattern self (read_text stored) = Some m \<Longrightarrow>
   m_version m = Some (a, b) \<Longrightarrow>
   replace_dynamic_version linesep fs self new_version
     = (Inr (), fs(file self \<mapsto>
          write_text linesep
            (take a (read_text stored) @ new_version @ drop b (read_text stored))))"
  by (simp add: replace_dynamic_version_def span_version_def py_slice_to_def py_slice_from_def
        Let_def)

text \<open>
  C1, as the code has it. Let the file of a store exist and have the line ends that the
  platform writes (writing back what is read gives the stored characters again; on
  POSIX that is a file without carriage return), let the store's pattern be the default
  pattern, let the first match in the file capture \<open>V\<close>, and let the store hold no read
  result yet, or hold \<open>V\<close>. Then \<^verbatim>\<open>replace_dynamic_version(V)\<close> succeeds, the captured
  span \<open>(a, b)\<close> lies inside the text, the file system afterwards is the file system
  before (so no byte of the file changes, outside the span or inside), and
  \<^verbatim>\<open>dynamic_version\<close> afterwards gives \<open>V\<close>.
\<close>

theorem write_then_read_default_pattern:
  assumes f: "fs (file self) = Some stored"
    and e: "write_text linesep (read_text stored) = stored"
    and p: "pattern self = DEFAULT_REGEX"
    and m: "DEFAULT_REGEX (read_text stored) = Some m"
    and g: "group_version m (read_text stored) = Some V"
    and c: "dynamic_version_cache self = None \<or> dynamic_version_cache self = Some (Some V)"
  shows "\<exists>a b. m_version m = Some (a, b) \<and> a \<le> b \<and> b \<le> length (read_text stored)
           \<and> V = take (b - a) (drop a (read_text stored))
           \<and> replace_dynamic_version linesep fs self V = (Inr (), fs)
           \<and> fst (dynamic_version fs self) = Inr (Some V)"
proof -
  let ?t = "read_text stored"
  from g obtain a b where ab: "m_version m = Some (a, b)" and V: "V = take (b - a) (drop a ?t)"
    by (auto simp: group_version_def split: option.splits)
  from DEFAULT_REGEX_span [OF m ab] have le: "a \<le> b" "b \<le> length ?t" by simp_all
  have same: "take a ?t @ V @ drop b ?t = ?t"
    using splice_same [OF le] V by (simp add: py_slice_to_def py_slice_from_def)
  have "replace_dynamic_version linesep fs self V
          = (Inr (), fs(file self \<mapsto> write_text linesep (take a ?t @ V @ drop b ?t)))"
    using f p m ab by (simp add: replace_dynamic_version_splice)
  then have w: "replace_dynamic_version linesep fs self V = (Inr (), fs)"
    using f e same by (simp add: map_upd_triv)
  have "dynamic_version_fget fs self = Inr (Some V)"
    using f p m g by (simp add: dynamic_version_fget_def)
  then have r: "fst (dynamic_version fs self) = Inr (Some V)"
    using c by (auto simp: dynamic_version_def)
  show ?thesis using ab le V w r by simp
qed

theorem write_then_read_default_pattern_witness:
  "replace_dynamic_version [nl]
     [''v.py'' \<mapsto> ''# pkg'' @ [nl] @ ''__version__ = '' @ [dq] @ ''1.2.3'' @ [dq]
        @ ''  # comment'' @ [nl]]
     (new_DynamicVersionConfig ''v.py'' DEFAULT_REGEX) ''1.2.3''
   = (Inr (), [''v.py'' \<mapsto> ''# pkg'' @ [nl] @ ''__version__ = '' @ [dq] @ ''1.2.3'' @ [dq]
        @ ''  # comment'' @ [nl]])
   \<and> fst (dynamic_version
        [''v.py'' \<mapsto> ''# pkg'' @ [nl] @ ''__version__ = '' @ [dq] @ ''1.2.3'' @ [dq]
           @ ''  # comment'' @ [nl]]
        (new_DynamicVersionConfig ''v.py'' DEFAULT_REGEX)) = Inr (Some ''1.2.3'')"
proof -
  let ?t = "''# pkg'' @ [nl] @ ''__version__ = '' @ [dq] @ ''1.2.3'' @ [dq]
              @ ''  # comment'' @ [nl]"
  let ?fs = "[''v.py'' \<mapsto> ?t]"
  let ?s = "new_DynamicVersionConfig ''v.py'' DEFAULT_REGEX"
  let ?m = "\<lparr>m_start = 6, m_end = 38, m_version = Some (21, 26)\<rparr>"
  have rt: "read_text ?t = ?t" by (simp add: read_text_no_cr)
  have f: "?fs (file ?s) = Some ?t" by (simp add: new_DynamicVersionConfig_def)
  have e: "write_text [nl] (read_text ?t) = ?t" by (rule rewrite_posix) simp
  have p: "pattern ?s = DEFAULT_REGEX" by (simp add: new_DynamicVersionConfig_def)
  have m: "DEFAULT_REGEX (read_text ?t) = Some ?m"
    unfolding rt
    by (simp add: DEFAULT_REGEX_def re_search_def default_regex_items_def is_space_def)
  have g: "group_version ?m (read_text ?t) = Some ''1.2.3''"
    unfolding rt by (simp add: group_version_def)
  have c: "dynamic_version_cache ?s = None \<or> dynamic_version_cache ?s = Some (Some ''1.2.3'')"
    by (simp add: new_DynamicVersionConfig_def)
  from write_then_read_default_pattern [where fs = ?fs and self = ?s, OF f e p m g c]
  show ?thesis by blast
qed

text \<open>
  C1 as stated fails in two ways, both on POSIX (\<^verbatim>\<open>os.linesep\<close> a line feed).

  First, on a store that holds an older read result. A new store reads \<^verbatim>\<open>1.0\<close> and
  keeps it; the same store writes \<^verbatim>\<open>2.0\<close>; the file now matches with \<open>V\<close> =
  \<^verbatim>\<open>2.0\<close>; writing \<open>V\<close> again succeeds and leaves the file as it is, and the read after
  it gives \<^verbatim>\<open>1.0\<close>, not \<open>V\<close>.

  Second, on a file whose lines end in carriage return and line feed. The file is the
  line \<^verbatim>\<open>__version__ = "1.0"\<close> with such a line end; a new store finds the match with
  \<open>V\<close> = \<^verbatim>\<open>1.0\<close> at the span \<open>(15, 18)\<close>; writing \<open>V\<close> stores the line with a line
  feed alone, so the carriage return at offset 19, outside the span, is gone.
\<close>

theorem write_then_read_stale_cache:
  "snd (dynamic_version [''v.py'' \<mapsto> ''__version__ = '' @ [dq] @ ''1.0'' @ [dq]]
          (new_DynamicVersionConfig ''v.py'' DEFAULT_REGEX))
     = \<lparr>file = ''v.py'', pattern = DEFAULT_REGEX, dynamic_version_cache = Some (Some ''1.0'')\<rparr>
   \<and> replace_dynamic_version [nl] [''v.py'' \<mapsto> ''__version__ = '' @ [dq] @ ''1.0'' @ [dq]]
        \<lparr>file = ''v.py'', pattern = DEFAULT_REGEX, dynamic_version_cache = Some (Some ''1.0'')\<rparr> ''2.0''
     = (Inr (), [''v.py'' \<mapsto> ''__version__ = '' @ [dq] @ ''2.0'' @ [dq]])
   \<and> dynamic_version_fget [''v.py'' \<mapsto> ''__version__ = '' @ [dq] @ ''2.0'' @ [dq]]
        \<lparr>file = ''v.py'', pattern = DEFAULT_REGEX, dynamic_version_cache = Some (Some ''1.0'')\<rparr>
     = Inr (Some ''2.0'')
   \<and> replace_dynamic_version [nl] [''v.py'' \<mapsto> ''__version__ = '' @ [dq] @ ''2.0'' @ [dq]]
        \<lparr>file = ''v.py'', pattern = DEFAULT_REGEX, dynamic_version_cache = Some (Some ''1.0'')\<rparr> ''2.0''
     = (Inr (), [''v.py'' \<mapsto> ''__version__ = '' @ [dq] @ ''2.0'' @ [dq]])
   \<and> fst (dynamic_version [''v.py'' \<mapsto> ''__version__ = '' @ [dq] @ ''2.0'' @ [dq]]
        \<lparr>file = ''v.py'', pattern = DEFAULT_REGEX, dynamic_version_cache = Some (Some ''1.0'')\<rparr>)
     = Inr (Some ''1.0'')
   \<and> Inr (Some ''1.0'') \<noteq> (Inr (Some ''2.0'') :: py_error + string option)
   \<and> DEFAULT_REGEX (read_text (''__version__ = '' @ [dq] @ ''1.0'' @ [dq] @ [cr, nl]))
     = Some \<lparr>m_start = 0, m_end = 20, m_version = Some (15, 18)\<rparr>
   \<and> dynamic_version_fget [''v.py'' \<mapsto> ''__version__ = '' @ [dq] @ ''1.0'' @ [dq] @ [cr, nl]]
        (new_DynamicVersionConfig ''v.py'' DEFAULT_REGEX)
     = Inr (Some ''1.0'')
   \<and> replace_dynamic_version [nl]
        [''v.py'' \<mapsto> ''__version__ = '' @ [dq] @ ''1.0'' @ [dq] @ [cr, nl]]
        (new_DynamicVersionConfig ''v.py'' DEFAULT_REGEX) ''1.0''
     = (Inr (), [''v.py'' \<mapsto> ''__version__ = '' @ [dq] @ ''1.0'' @ [dq] @ [nl]])
   \<and> (''__version__ = '' @ [dq] @ ''1.0'' @ [dq] @ [cr, nl]) ! 19 = cr
   \<and> (''__version__ = '' @ [dq] @ ''1.0'' @ [dq] @ [nl]) ! 19 = nl"
  by (simp add: dynamic_version_def dynamic_version_fget_def new_DynamicVersionConfig_def
       replace_dynamic_version_def span_version_def py_slice_to_def py_slice_from_def
       write_text_def
       group_version_def DEFAULT_REGEX_def re_search_def default_regex_items_def is_space_def)

text \<open>
  C3, as the code has it. \<^verbatim>\<open>dynamic_version\<close> is a \<^verbatim>\<open>cached_property\<close>: once an access
  has returned a value, every later access on the same store returns that value and
  leaves the store as it is, whatever the file system then holds; path and pattern never
  change. Only the access on a store that holds no result yet reads the file.
\<close>

theorem dynamic_version_cached:
  "dynamic_version fs self = (Inr v, self') \<Longrightarrow>
   dynamic_version fs' self' = (Inr v, self')
   \<and> file self' = file self \<and> pattern self' = pattern self
   \<and> (dynamic_version_cache self = None \<longrightarrow> dynamic_version_fget fs self = Inr v)"
  by (auto simp: dynamic_version_def split: option.splits sum.splits)

theorem dynamic_version_cached_witness:
  "dynamic_version [''v.py'' \<mapsto> ''__version__ = '' @ [sq] @ ''2.0'' @ [sq]]
     \<lparr>file = ''v.py'', pattern = DEFAULT_REGEX, dynamic_version_cache = Some (Some ''1.0'')\<rparr>
   = (Inr (Some ''1.0''),
      \<lparr>file = ''v.py'', pattern = DEFAULT_REGEX, dynamic_version_cache = Some (Some ''1.0'')\<rparr>)"
proof -
  have h: "dynamic_version [''v.py'' \<mapsto> ''__version__ = '' @ [sq] @ ''1.0'' @ [sq]]
             (new_DynamicVersionConfig ''v.py'' DEFAULT_REGEX)
           = (Inr (Some ''1.0''),
              \<lparr>file = ''v.py'', pattern = DEFAULT_REGEX,
                dynamic_version_cache = Some (Some ''1.0'')\<rparr>)"
    by (simp add: dynamic_version_def dynamic_version_fget_def new_DynamicVersionConfig_def
          group_version_def DEFAULT_REGEX_def re_search_def default_regex_items_def is_space_def)
  show ?thesis using dynamic_version_cached [OF h] by blast
qed

text \<open>
  C3 as stated fails: a new store reads \<^verbatim>\<open>1.0\<close>; the file then changes so that its
  text captures \<^verbatim>\<open>2.0\<close>; the second access on the same store still gives \<^verbatim>\<open>1.0\<close>.
  The store has a third piece of state besides path and pattern, the stored result.
\<close>

theorem dynamic_version_not_reread:
  "dynamic_version [''v.py'' \<mapsto> ''__version__ = '' @ [dq] @ ''1.0'' @ [dq]]
     (new_DynamicVersionConfig ''v.py'' DEFAULT_REGEX)
     = (Inr (Some ''1.0''),
        \<lparr>file = ''v.py'', pattern = DEFAULT_REGEX, dynamic_version_cache = Some (Some ''1.0'')\<rparr>)
   \<and> dynamic_version_fget [''v.py'' \<mapsto> ''__version__ = '' @ [dq] @ ''2.0'' @ [dq]]
        \<lparr>file = ''v.py'', pattern = DEFAULT_REGEX, dynamic_version_cache = Some (Some ''1.0'')\<rparr>
     = Inr (Some ''2.0'')
   \<and> fst (dynamic_version [''v.py'' \<mapsto> ''__version__ = '' @ [dq] @ ''2.0'' @ [dq]]
        \<lparr>file = ''v.py'', pattern = DEFAULT_REGEX, dynamic_version_cache = Some (Some ''1.0'')\<rparr>)
     = Inr (Some ''1.0'')
   \<and> dynamic_version_cache (new_DynamicVersionConfig ''v.py'' DEFAULT_REGEX)
     \<noteq> dynamic_version_cache
         (snd (dynamic_version [''v.py'' \<mapsto> ''__version__ = '' @ [dq] @ ''1.0'' @ [dq]]
                 (new_DynamicVersionConfig ''v.py'' DEFAULT_REGEX)))"
  by (simp add: dynamic_version_def dynamic_version_fget_def new_DynamicVersionConfig_def
       group_version_def DEFAULT_REGEX_def re_search_def default_regex_items_def is_space_def)

subsection \<open>The resolver\<close>

text \<open>
  C7. A resolver that holds a version (state Resolved) returns it from
  \<^verbatim>\<open>__get_current_version\<close> and stays as it is, whatever the file system is at that
  moment: two file systems give the same answer, so a change of the file between two
  calls is not seen. \<^verbatim>\<open>__set_current_version\<close> puts the resolver into that state.
\<close>

theorem get_current_version_resolved_cached:
  "current_version self = Some v \<Longrightarrow>
   get_current_version from_string fs self = (Inr v, self)
   \<and> get_current_version from_string fs' self = get_current_version from_string fs self
   \<and> current_version (set_current_version self w) = Some w"
  by (simp add: get_current_version_def set_current_version_def)

theorem get_current_version_resolved_cached_witness:
  "get_current_version Inr [''v.py'' \<mapsto> ''__version__ = '' @ [dq] @ ''9.9.9'' @ [dq]]
     (set_current_version (new_DynamicVersionSource ''/proj'' Map.empty) ''1.2.3'')
   = (Inr ''1.2.3'', set_current_version (new_DynamicVersionSource ''/proj'' Map.empty) ''1.2.3'')"
proof -
  have h: "current_version
             (set_current_version (new_DynamicVersionSource ''/proj'' Map.empty) ''1.2.3'')
           = Some ''1.2.3''"
    by (simp add: set_current_version_def)
  show ?thesis using get_current_version_resolved_cached [OF h] by blast
qed

text \<open>
  C9. On a resolver that holds no version (state Unresolved, as after construction)
  \<^verbatim>\<open>save_value\<close> raises the \<^verbatim>\<open>ValueError\<close> of line 122 (the failure the specification
  calls PreconditionError), and the file system afterwards is the file system before.
\<close>

theorem save_value_unresolved_fails:
  "current_version self = None \<Longrightarrow>
   save_value format fs self = (Inl (ValueError ''No current value set''), fs)"
  by (simp add: save_value_def)

theorem save_value_unresolved_fails_witness:
  "save_value (\<lambda>v. v) [''v.py'' \<mapsto> ''x''] (new_DynamicVersionSource ''/proj'' Map.empty)
   = (Inl (ValueError ''No current value set''), [''v.py'' \<mapsto> ''x''])"
proof -
  have h: "current_version (new_DynamicVersionSource ''/proj'' Map.empty
             :: string DynamicVersionSource) = None"
    by (simp add: new_DynamicVersionSource_def)
  show ?thesis by (rule save_value_unresolved_fails [OF h])
qed

text \<open>
  C8, as the code has it. When the manifest has no value at \<^verbatim>\<open>project.dynamic\<close>, or has
  a list there, \<^verbatim>\<open>is_enabled\<close> is true exactly if the value is a list with the entry
  \<^verbatim>\<open>"version"\<close>. \<^verbatim>\<open>is_enabled\<close> is a function of the manifest alone: it takes no file
  system and returns no new resolver.
\<close>

theorem is_enabled_iff_list_contains_version:
  "config self [''project'', ''dynamic''] = None
     \<or> (\<exists>vs. config self [''project'', ''dynamic''] = Some (TArray vs)) \<Longrightarrow>
   is_enabled self
     = Inr (\<exists>vs. config self [''project'', ''dynamic''] = Some (TArray vs)
                 \<and> TString ''version'' \<in> set vs)"
  by (auto simp: is_enabled_def)

theorem is_enabled_iff_list_contains_version_witness:
  "is_enabled (new_DynamicVersionSource ''/proj''
       [[''project'', ''dynamic''] \<mapsto> TArray [TString ''readme'', TString ''version'']]
     :: string DynamicVersionSource) = Inr True
   \<and> is_enabled (new_DynamicVersionSource ''/proj''
       [[''project'', ''dynamic''] \<mapsto> TArray []] :: string DynamicVersionSource) = Inr False
   \<and> is_enabled (new_DynamicVersionSource ''/proj'' Map.empty :: string DynamicVersionSource)
       = Inr False"
proof -
  let ?a = "new_DynamicVersionSource ''/proj''
       [[''project'', ''dynamic''] \<mapsto> TArray [TString ''readme'', TString ''version'']]
     :: string DynamicVersionSource"
  let ?b = "new_DynamicVersionSource ''/proj''
       [[''project'', ''dynamic''] \<mapsto> TArray []] :: string DynamicVersionSource"
  let ?c = "new_DynamicVersionSource ''/proj'' Map.empty :: string DynamicVersionSource"
  have a: "config ?a [''project'', ''dynamic''] = None
     \<or> (\<exists>vs. config ?a [''project'', ''dynamic''] = Some (TArray vs))"
    by (simp add: new_DynamicVersionSource_def)
  have b: "config ?b [''project'', ''dynamic''] = None
     \<or> (\<exists>vs. config ?b [''project'', ''dynamic''] = Some (TArray vs))"
    by (simp add: new_DynamicVersionSource_def)
  have c: "config ?c [''project'', ''dynamic''] = None
     \<or> (\<exists>vs. config ?c [''project'', ''dynamic''] = Some (TArray vs))"
    by (simp add: new_DynamicVersionSource_def)
  show ?thesis
    using is_enabled_iff_list_contains_version [OF a]
      is_enabled_iff_list_contains_version [OF b]
      is_enabled_iff_list_contains_version [OF c]
    by (simp add: new_DynamicVersionSource_def)
qed

text \<open>
  C8 as stated, for every manifest, fails where the value is not a list: \<^verbatim>\<open>cast\<close> does
  not check, and \<^verbatim>\<open>in\<close> is a substring test on a string and a key test on a table, so
  the string \<^verbatim>\<open>"version"\<close> and a table with the key \<^verbatim>\<open>version\<close> enable; on an integer
  \<^verbatim>\<open>in\<close> raises.
\<close>

theorem is_enabled_string_value:
  "is_enabled (new_DynamicVersionSource ''/proj''
       [[''project'', ''dynamic''] \<mapsto> TString ''version''] :: string DynamicVersionSource)
     = Inr True
   \<and> is_enabled (new_DynamicVersionSource ''/proj''
       [[''project'', ''dynamic''] \<mapsto> TTable [(''version'', TBoolean False)]]
       :: string DynamicVersionSource)
     = Inr True
   \<and> is_enabled (new_DynamicVersionSource ''/proj''
       [[''project'', ''dynamic''] \<mapsto> TInteger 1] :: string DynamicVersionSource)
     = Inl (TypeError ''argument of type int is not iterable'')"
  by (simp add: is_enabled_def new_DynamicVersionSource_def)

text \<open>
  The static method \<^verbatim>\<open>find_dynamic_config\<close> by itself: it gives a store exactly when the
  two manifest values are the two literals and the path is a string, and \<^verbatim>\<open>None\<close>
  exactly when one of the two values differs.
\<close>

lemma find_dynamic_config_Some_iff:
  "(\<exists>d. find_dynamic_config truediv root cfg = Inr (Some d)) \<longleftrightarrow>
     cfg [''build-system'', ''build-backend''] = Some (TString ''pdm.pep517.api'')
     \<and> cfg [''tool'', ''pdm'', ''version'', ''source''] = Some (TString ''file'')
     \<and> (\<exists>p. cfg [''tool'', ''pdm'', ''version'', ''path''] = Some (TString p))"
  by (auto simp: find_dynamic_config_def split: option.splits toml_value.splits)

lemma find_dynamic_config_None_iff:
  "find_dynamic_config truediv root cfg = Inr None \<longleftrightarrow>
     \<not> (cfg [''build-system'', ''build-backend''] = Some (TString ''pdm.pep517.api'')
        \<and> cfg [''tool'', ''pdm'', ''version'', ''source''] = Some (TString ''file''))"
  by (auto simp: find_dynamic_config_def split: option.splits toml_value.splits)

text \<open>
  C2, evaluated. The manifest names the backend \<^verbatim>\<open>pdm.pep517.api\<close>, the source
  \<^verbatim>\<open>file\<close> and the path \<^verbatim>\<open>pkg/__init__.py\<close>, and the file holds
  \<^verbatim>\<open>__version__ = "1.2.3"\<close>. \<^verbatim>\<open>find_dynamic_config\<close> gives the store and the store
  reads \<^verbatim>\<open>1.2.3\<close>; but \<^verbatim>\<open>__get_current_version\<close> on the new resolver raises
  \<^verbatim>\<open>NameError\<close> and leaves the resolver Unresolved, since line 131 calls
  \<^verbatim>\<open>find_dynamic_config\<close> through a bare private name.
\<close>

theorem get_current_version_unresolved_name_error:
  "find_dynamic_config (\<lambda>root p. root @ ''/'' @ p) ''/proj''
      [[''build-system'', ''build-backend''] \<mapsto> TString ''pdm.pep517.api'',
       [''tool'', ''pdm'', ''version'', ''source''] \<mapsto> TString ''file'',
       [''tool'', ''pdm'', ''version'', ''path''] \<mapsto> TString ''pkg/__init__.py'']
     = Inr (Some (new_DynamicVersionConfig ''/proj/pkg/__init__.py'' DEFAULT_REGEX))
   \<and> fst (dynamic_version
        [''/proj/pkg/__init__.py'' \<mapsto> ''__version__ = '' @ [dq] @ ''1.2.3'' @ [dq]]
        (new_DynamicVersionConfig ''/proj/pkg/__init__.py'' DEFAULT_REGEX))
     = Inr (Some ''1.2.3'')
   \<and> get_current_version Inr
        [''/proj/pkg/__init__.py'' \<mapsto> ''__version__ = '' @ [dq] @ ''1.2.3'' @ [dq]]
        (new_DynamicVersionSource ''/proj''
           [[''build-system'', ''build-backend''] \<mapsto> TString ''pdm.pep517.api'',
            [''tool'', ''pdm'', ''version'', ''source''] \<mapsto> TString ''file'',
            [''tool'', ''pdm'', ''version'', ''path''] \<mapsto> TString ''pkg/__init__.py''])
     = (Inl (NameError (''name '' @ [sq] @ ''_DynamicVersionSource__find_dynamic_config''
               @ [sq] @ '' is not defined'')),
        new_DynamicVersionSource ''/proj''
           [[''build-system'', ''build-backend''] \<mapsto> TString ''pdm.pep517.api'',
            [''tool'', ''pdm'', ''version'', ''source''] \<mapsto> TString ''file'',
            [''tool'', ''pdm'', ''version'', ''path''] \<mapsto> TString ''pkg/__init__.py''])"
  by (simp add: find_dynamic_config_def get_current_version_def get_dynamic_version_raises
        new_DynamicVersionSource_def
        dynamic_version_def dynamic_version_fget_def new_DynamicVersionConfig_def
        group_version_def DEFAULT_REGEX_def re_search_def default_regex_items_def is_space_def)

text \<open>
  C5, evaluated. Same manifest; the file has no line that matches. The store reads
  \<^verbatim>\<open>None\<close>, but \<^verbatim>\<open>__get_current_version\<close> raises the \<^verbatim>\<open>NameError\<close> of line 131, not
  the \<^verbatim>\<open>ValueError\<close> of line 110 that would name the file.
\<close>

theorem get_current_version_no_match_name_error:
  "fst (dynamic_version [''/proj/pkg/__init__.py'' \<mapsto> ''version = 1'']
        (new_DynamicVersionConfig ''/proj/pkg/__init__.py'' DEFAULT_REGEX))
     = Inr None
   \<and> fst (get_current_version Inr [''/proj/pkg/__init__.py'' \<mapsto> ''version = 1'']
        (new_DynamicVersionSource ''/proj''
           [[''build-system'', ''build-backend''] \<mapsto> TString ''pdm.pep517.api'',
            [''tool'', ''pdm'', ''version'', ''source''] \<mapsto> TString ''file'',
            [''tool'', ''pdm'', ''version'', ''path''] \<mapsto> TString ''pkg/__init__.py'']))
     = (Inl (NameError (''name '' @ [sq] @ ''_DynamicVersionSource__find_dynamic_config''
               @ [sq] @ '' is not defined'')) :: py_error + string)"
  by (simp add: get_current_version_def get_dynamic_version_raises new_DynamicVersionSource_def
        dynamic_version_def dynamic_version_fget_def new_DynamicVersionConfig_def
        DEFAULT_REGEX_def re_search_def default_regex_items_def)

text \<open>
  C6, evaluated. The manifest names another backend. \<^verbatim>\<open>find_dynamic_config\<close> gives
  \<^verbatim>\<open>None\<close>, but \<^verbatim>\<open>__get_current_version\<close> raises the \<^verbatim>\<open>NameError\<close> of line 131, not
  the \<^verbatim>\<open>ValueError\<close> of lines 137 to 140.
\<close>

theorem get_current_version_unconfigured_name_error:
  "find_dynamic_config (\<lambda>root p. root @ ''/'' @ p) ''/proj''
      [[''build-system'', ''build-backend''] \<mapsto> TString ''setuptools.build_meta'']
     = Inr None
   \<and> fst (get_current_version Inr Map.empty
        (new_DynamicVersionSource ''/proj''
           [[''build-system'', ''build-backend''] \<mapsto> TString ''setuptools.build_meta'']))
     = (Inl (NameError (''name '' @ [sq] @ ''_DynamicVersionSource__find_dynamic_config''
               @ [sq] @ '' is not defined'')) :: py_error + string)
   \<and> fst (get_current_version Inr Map.empty
        (new_DynamicVersionSource ''/proj''
           [[''build-system'', ''build-backend''] \<mapsto> TString ''setuptools.build_meta'']))
     \<noteq> (Inl (ValueError (''Failed to extract dynamic version from /proj''
               @ ''. Only pdm-pep517 `file` types are supported.'')) :: py_error + string)"
  by (simp add: find_dynamic_config_def get_current_version_def get_dynamic_version_raises
        new_DynamicVersionSource_def)

end
